theory Spec2Isabelle
  imports Complex_Main
begin

section \<open>Python values and exceptions\<close>

text \<open>
  The exceptions the modelled code can raise.  A function that can raise returns
  \<open>error + 'a\<close>, with \<open>Inl\<close> for the exception.
\<close>

datatype error =
    ValueError | IndexError | KeyError | TypeError | RuntimeError | AssertionError
  | OverflowError

subsection \<open>Floating-point numbers\<close>

text \<open>
  A binary floating-point value: a finite number, an infinity or NaN.  The sign of zero is
  not kept (no operation modelled here tells \<open>-0.0\<close> from \<open>0.0\<close>).
\<close>

datatype fp = Finite real | PosInf | NegInf | NaN

text \<open>Rounding to the nearest integer, a tie to the even one.\<close>

definition round_half_even :: "real \<Rightarrow> int" where
  "round_half_even y =
     (let f = \<lfloor>y\<rfloor>; r = y - of_int f
      in if r < 1 / 2 then f else if 1 / 2 < r then f + 1 else if even f then f else f + 1)"

text \<open>
  IEEE 754 rounding of a real number to the binary format with \<open>p\<close> bits of precision,
  least normal exponent \<open>emin\<close> and overflow at \<open>2 ^ emax\<close>: \<open>x\<close> is rounded to the
  nearest multiple of the spacing of its binade (of the subnormal spacing below
  \<open>2 ^ emin\<close>), ties to even, and becomes an infinity when the rounded magnitude reaches
  \<open>2 ^ emax\<close>.
\<close>

definition round_binary :: "nat \<Rightarrow> int \<Rightarrow> int \<Rightarrow> real \<Rightarrow> fp" where
  "round_binary p emin emax x =
     (if x = 0 then Finite 0
      else
        let e = max \<lfloor>log 2 \<bar>x\<bar>\<rfloor> emin;
            u = 2 powi (e - int p + 1);
            r = of_int (round_half_even (x / u)) * u
        in if 2 powi emax \<le> \<bar>r\<bar> then (if 0 < x then PosInf else NegInf) else Finite r)"

definition float32 :: "real \<Rightarrow> fp" where
  "float32 = round_binary 24 (- 126) 128"

definition float64 :: "real \<Rightarrow> fp" where
  "float64 = round_binary 53 (- 1022) 1024"

text \<open>The comparison \<open>x > 0\<close>: false for NaN.\<close>

fun fp_gt0 :: "fp \<Rightarrow> bool" where
  "fp_gt0 (Finite x) = (0 < x)"
| "fp_gt0 PosInf = True"
| "fp_gt0 NegInf = False"
| "fp_gt0 NaN = False"

text \<open>The cast of a Python float (a double) to \<open>float32\<close>, as \<open>np.array(..., dtype=np.float32)\<close>
  applies it to every entry: a value too large becomes an infinity, without an exception.\<close>

fun to_float32 :: "fp \<Rightarrow> fp" where
  "to_float32 (Finite x) = float32 x"
| "to_float32 PosInf = PosInf"
| "to_float32 NegInf = NegInf"
| "to_float32 NaN = NaN"

text \<open>\<open>x - c\<close> and \<open>x / c\<close> on a \<open>float32\<close> value \<open>x\<close>, for a finite \<open>c\<close> that \<open>float32\<close>
  holds exactly (and \<open>c > 0\<close> in the division): the result is a \<open>float32\<close>, the exact
  result rounded.\<close>

fun f32_sub :: "fp \<Rightarrow> real \<Rightarrow> fp" where
  "f32_sub (Finite x) c = float32 (x - c)"
| "f32_sub PosInf c = PosInf"
| "f32_sub NegInf c = NegInf"
| "f32_sub NaN c = NaN"

fun f32_div :: "fp \<Rightarrow> real \<Rightarrow> fp" where
  "f32_div (Finite x) c = float32 (x / c)"
| "f32_div PosInf c = PosInf"
| "f32_div NegInf c = NegInf"
| "f32_div NaN c = NaN"

text \<open>\<open>np.clip(x, 0, 1)\<close> on one entry: NaN stays NaN.\<close>

fun fp_clip01 :: "fp \<Rightarrow> fp" where
  "fp_clip01 (Finite x) = Finite (min 1 (max 0 x))"
| "fp_clip01 PosInf = Finite 1"
| "fp_clip01 NegInf = Finite 0"
| "fp_clip01 NaN = NaN"

subsection \<open>Descriptor values\<close>

text \<open>
  A descriptor value: an \<open>int\<close> (also a \<open>bool\<close>), a \<open>float\<close>, a string, or anything else
  (\<open>None\<close>, a list, ...).  A descriptor set is a dictionary, here an association list
  read with \<open>map_of\<close>.  Strings are ASCII text: the characters of this model are bytes,
  so the digits of other scripts, which \<open>str.isdigit\<close> also accepts, cannot be written.
\<close>

datatype pyval = PyInt int | PyFloat fp | PyStr string | PyOther

type_synonym features = "(string \<times> pyval) list"

section \<open>processors.py: FeatureProcessor\<close>

definition feature_order :: "string list" where
  "feature_order =
     [''tempo'', ''energy'', ''danceability'', ''valence'', ''acousticness'',
      ''instrumentalness'', ''speechiness'', ''loudness'', ''spectral_centroid'',
      ''spectral_rolloff'', ''zero_crossing_rate'', ''dynamic_complexity'',
      ''beats_confidence'', ''onset_rate'', ''key_strength'', ''dissonance'']"

subsection \<open>The conversions of \<open>create_feature_vector\<close>\<close>

definition digit_of :: "char \<Rightarrow> nat option" where
  "digit_of c =
     (let n = (of_char c :: nat) in if 48 \<le> n \<and> n \<le> 57 then Some (n - 48) else None)"

definition is_digit_char :: "char \<Rightarrow> bool" where
  "is_digit_char c = (digit_of c \<noteq> None)"

text \<open>\<open>s.isdigit()\<close> on ASCII text: a non-empty string of digits.\<close>

definition isdigit :: "string \<Rightarrow> bool" where
  "isdigit s = (s \<noteq> [] \<and> list_all is_digit_char s)"

text \<open>\<open>s.replace('.', '')\<close>.\<close>

definition replace_dot :: "string \<Rightarrow> string" where
  "replace_dot s = filter (\<lambda>c. c \<noteq> CHR ''.'') s"

fun digits_nat :: "nat \<Rightarrow> string \<Rightarrow> nat" where
  "digits_nat acc [] = acc"
| "digits_nat acc (c # cs) = digits_nat (10 * acc + (case digit_of c of Some d \<Rightarrow> d | None \<Rightarrow> 0)) cs"

text \<open>
  \<open>float(s)\<close> on a string of digits and dots, the only strings \<open>create_feature_vector\<close>
  passes to it: Python reads digits with at most one dot (\<open>'12'\<close>, \<open>'1.5'\<close>, \<open>'5.'\<close>,
  \<open>'.5'\<close>), rounding the decimal number to the nearest double, and raises ValueError on a
  second dot (\<open>'1.2.3'\<close>, \<open>'1..2'\<close>) or when there is no digit.  Signs, exponents, blanks,
  \<open>inf\<close> and \<open>nan\<close>, which the real \<open>float\<close> also reads, never reach it from this code
  and are not modelled.
\<close>

definition py_float :: "string \<Rightarrow> error + fp" where
  "py_float s =
     (let ip = takeWhile (\<lambda>c. c \<noteq> CHR ''.'') s;
          frac = drop 1 (dropWhile (\<lambda>c. c \<noteq> CHR ''.'') s)
      in if list_all is_digit_char ip \<and> list_all is_digit_char frac \<and> ip @ frac \<noteq> []
         then Inr (float64 (real (digits_nat 0 ip) + real (digits_nat 0 frac) / 10 ^ length frac))
         else Inl ValueError)"

text \<open>\<open>float(i)\<close> on an \<open>int\<close>: the nearest double, or OverflowError when that is out of
  the range of the doubles.\<close>

definition py_float_of_int :: "int \<Rightarrow> error + fp" where
  "py_float_of_int i =
     (case float64 (of_int i) of Finite r \<Rightarrow> Inr (Finite r) | _ \<Rightarrow> Inl OverflowError)"

subsection \<open>\<open>create_feature_vector\<close> and \<open>_normalize_vector\<close>\<close>

text \<open>One turn of the loop over \<open>feature_order\<close>: the Python float appended for one name.\<close>

definition feature_value :: "features \<Rightarrow> string \<Rightarrow> error + fp" where
  "feature_value fs name =
     (case map_of fs name of
        None \<Rightarrow> Inr (Finite 0)
      | Some (PyInt i) \<Rightarrow> py_float_of_int i
      | Some (PyFloat x) \<Rightarrow> Inr x
      | Some (PyStr s) \<Rightarrow> if isdigit (replace_dot s) then py_float s else Inr (Finite 0)
      | Some PyOther \<Rightarrow> Inr (Finite 0))"

fun vector_values :: "features \<Rightarrow> string list \<Rightarrow> error + fp list" where
  "vector_values fs [] = Inr []"
| "vector_values fs (name # names) =
     (case feature_value fs name of
        Inl e \<Rightarrow> Inl e
      | Inr x \<Rightarrow>
          (case vector_values fs names of
             Inl e \<Rightarrow> Inl e
           | Inr xs \<Rightarrow> Inr (x # xs)))"

text \<open>Lines 67 and 68, on the \<open>float32\<close> array: the tempo component before clipping.
  The subtraction and the division are \<open>float32\<close> operations (numpy 2 keeps a \<open>float32\<close>
  scalar combined with a Python \<open>int\<close> in \<open>float32\<close>), and the \<open>0\<close> of the other
  branch is stored as 0.0.\<close>

definition scale_tempo :: "fp list \<Rightarrow> fp list" where
  "scale_tempo v =
     (case v of
        [] \<Rightarrow> []
      | t # rest \<Rightarrow> (if fp_gt0 t then f32_div (f32_sub t 60) 140 else Finite 0) # rest)"

text \<open>
  \<open>np.linalg.norm\<close> of a \<open>float32\<close> array: NaN when an entry is NaN, else the square root
  of the sum of the squares as a \<open>float32\<close>.  numpy adds the squares in \<open>float32\<close> in an
  order of its own; the correctly rounded norm stands for its result.
\<close>

fun fp_real :: "fp \<Rightarrow> real" where
  "fp_real (Finite x) = x"
| "fp_real PosInf = 0"
| "fp_real NegInf = 0"
| "fp_real NaN = 0"

definition l2_norm :: "fp list \<Rightarrow> fp" where
  "l2_norm v =
     (if list_ex (\<lambda>x. x = NaN) v then NaN
      else if list_ex (\<lambda>x. x = PosInf \<or> x = NegInf) v then PosInf
      else float32 (sqrt (sum_list (map (\<lambda>x. fp_real x * fp_real x) v))))"

text \<open>Lines 74 to 76.  The entries are clipped before, so the norm is finite or NaN, and
  the division is reached with a finite positive norm only.\<close>

definition l2_normalize :: "fp list \<Rightarrow> fp list" where
  "l2_normalize v =
     (case l2_norm v of
        Finite n \<Rightarrow> if 0 < n then map (\<lambda>x. f32_div x n) v else v
      | PosInf \<Rightarrow> map (\<lambda>x. case x of Finite y \<Rightarrow> Finite 0 | _ \<Rightarrow> NaN) v
      | _ \<Rightarrow> v)"

definition normalize_vector :: "fp list \<Rightarrow> fp list" where
  "normalize_vector v = l2_normalize (map fp_clip01 (scale_tempo v))"

text \<open>Line 54 casts the Python floats to \<open>float32\<close>; line 57 normalizes the array.\<close>

definition create_feature_vector :: "features \<Rightarrow> error + fp list" where
  "create_feature_vector fs =
     (case vector_values fs feature_order of
        Inl e \<Rightarrow> Inl e
      | Inr v \<Rightarrow> Inr (normalize_vector (map to_float32 v)))"

section \<open>numpy arrays and the faiss library\<close>

text \<open>
  The arrays the index receives, by their number of dimensions.  \<open>Array0 x\<close> is a
  zero-dimensional array (shape \<open>()\<close>); \<open>Array1 xs\<close> is a one-dimensional float array of
  shape \<open>(length xs,)\<close>; \<open>Array1Obj vs\<close> is the one-dimensional object array of shape
  \<open>(length vs,)\<close> that holds vectors of differing lengths (a matrix cannot hold them);
  \<open>Array2 d rows\<close> is a two-dimensional float array of shape \<open>(length rows, d)\<close>;
  \<open>ArrayN n d e ds\<close> is an array of three or more dimensions, of shape
  \<open>(n, d, e, ...)\<close>, whose entries this code never reads.
\<close>

datatype ndarray =
    Array0 real
  | Array1 "real list"
  | Array1Obj "real list list"
  | Array2 nat "real list list"
  | ArrayN nat nat nat "nat list"

fun shape :: "ndarray \<Rightarrow> nat list" where
  "shape (Array0 x) = []"
| "shape (Array1 xs) = [length xs]"
| "shape (Array1Obj vs) = [length vs]"
| "shape (Array2 d rows) = [length rows, d]"
| "shape (ArrayN n d e ds) = n # d # e # ds"

text \<open>\<open>len(a)\<close> is \<open>a.shape[0]\<close>, and a TypeError on a zero-dimensional array.\<close>

fun py_len :: "ndarray \<Rightarrow> error + nat" where
  "py_len (Array0 x) = Inl TypeError"
| "py_len (Array1 xs) = Inr (length xs)"
| "py_len (Array1Obj vs) = Inr (length vs)"
| "py_len (Array2 d rows) = Inr (length rows)"
| "py_len (ArrayN n d e ds) = Inr n"

text \<open>\<open>a.reshape(1, -1)\<close> where \<open>a.ndim == 1\<close>, as \<open>search\<close> applies it; \<open>None\<close> stands
  for the two-dimensional object array a ragged array turns into, which faiss cannot
  convert to \<open>float32\<close>.\<close>

fun reshape_query :: "ndarray \<Rightarrow> ndarray option" where
  "reshape_query (Array1 xs) = Some (Array2 (length xs) [xs])"
| "reshape_query (Array1Obj vs) = None"
| "reshape_query a = Some a"

text \<open>
  The faiss index, as far as this code observes it: its dimension \<open>d\<close>, the HNSW
  parameters the code sets, and the stored vectors in insertion order; \<open>ntotal\<close> is
  their number, and a vector's internal id is its position.  This is a model of the
  library's Python interface, not of code of this repository.
\<close>

record faiss_index =
  faiss_d :: nat
  hnsw_M :: nat
  efConstruction :: nat
  xb :: "real list list"

definition ntotal :: "faiss_index \<Rightarrow> nat" where
  "ntotal f = length (xb f)"

definition IndexHNSWFlat :: "nat \<Rightarrow> nat \<Rightarrow> faiss_index" where
  "IndexHNSWFlat d M = \<lparr>faiss_d = d, hnsw_M = M, efConstruction = 40, xb = []\<rparr>"

text \<open>
  \<open>index.add(x)\<close>: the wrapper unpacks \<open>n, d = x.shape\<close> (ValueError unless the array is
  two-dimensional), asserts \<open>d == self.d\<close> (assertions are enabled, as Python has them
  unless it is started with \<open>-O\<close>), and appends the rows.
\<close>

definition faiss_add :: "faiss_index \<Rightarrow> ndarray \<Rightarrow> error + faiss_index" where
  "faiss_add f x =
     (case x of
        Array2 d rows \<Rightarrow>
          if d = faiss_d f then Inr (f\<lparr>xb := xb f @ rows\<rparr>) else Inl AssertionError
      | _ \<Rightarrow> Inl ValueError)"

text \<open>
  The graph search itself is approximate and is a parameter: \<open>ann f q k\<close> lists the
  candidates found for the query \<open>q\<close>, nearest first, as (distance, internal id).
  \<open>index.search(x, k)\<close> asserts the dimension and \<open>k > 0\<close> and returns, for every row
  of \<open>x\<close>, exactly \<open>k\<close> entries: where fewer than \<open>k\<close> candidates exist the rest is
  filled with the id \<open>-1\<close> and the largest \<open>float32\<close> as distance.
\<close>

type_synonym ann_search = "faiss_index \<Rightarrow> real list \<Rightarrow> nat \<Rightarrow> (real \<times> int) list"

definition FLT_MAX :: real where
  "FLT_MAX = 340282346638528859811704183484516925440"

definition pad_results :: "nat \<Rightarrow> (real \<times> int) list \<Rightarrow> (real \<times> int) list" where
  "pad_results k cands = take k (cands @ replicate k (FLT_MAX, - 1))"

definition faiss_search ::
  "ann_search \<Rightarrow> faiss_index \<Rightarrow> ndarray \<Rightarrow> int \<Rightarrow> error + (real \<times> int) list list" where
  "faiss_search ann f x k =
     (case x of
        Array2 d rows \<Rightarrow>
          if d \<noteq> faiss_d f then Inl AssertionError
          else if k \<le> 0 then Inl AssertionError
          else Inr (map (\<lambda>q. pad_results (nat k) (ann f q (nat k))) rows)
      | _ \<Rightarrow> Inl ValueError)"

section \<open>The storage root\<close>

text \<open>
  The file system maps a path to a file's content.  A file holds a serialised faiss index
  (what \<open>faiss.write_index\<close> wrote for an index), the record \<open>faiss.write_index\<close>
  writes for \<open>None\<close> and \<open>faiss.read_index\<close> reads back as \<open>None\<close>, a pickled
  dictionary, or anything else.  Of a
  pickled dictionary only the entries \<open>'item_ids'\<close> and \<open>'dimension'\<close> matter: each is
  absent (\<open>None\<close>) or holds a value.  \<open>OtherFile\<close> is every content on which
  \<open>faiss.read_index\<close>, \<open>pickle.load\<close> and the subscript \<open>metadata['item_ids']\<close> fail.
  Writing never fails in this model (no full disk, no permissions).
\<close>

record metadata =
  md_item_ids :: "string list option"
  md_dimension :: "nat option option"

datatype stored_file =
    IndexFile faiss_index | NullIndexFile | PickleFile metadata | OtherFile

type_synonym filesystem = "string \<Rightarrow> stored_file option"

definition read_index :: "stored_file \<Rightarrow> error + faiss_index option" where
  "read_index fl =
     (case fl of
        IndexFile f \<Rightarrow> Inr (Some f)
      | NullIndexFile \<Rightarrow> Inr None
      | _ \<Rightarrow> Inl RuntimeError)"

definition pickle_load :: "stored_file \<Rightarrow> error + metadata" where
  "pickle_load fl = (case fl of PickleFile m \<Rightarrow> Inr m | _ \<Rightarrow> Inl TypeError)"

text \<open>\<open>os.path.join(a, b)\<close> for a relative \<open>b\<close>.\<close>

definition os_path_join :: "string \<Rightarrow> string \<Rightarrow> string" where
  "os_path_join a b =
     (if a = [] then b else if last a = CHR ''/'' then a @ b else a @ ''/'' @ b)"

section \<open>client.py: SimilarityIndex\<close>

record similarity_index =
  index_path :: string
  index :: "faiss_index option"
  item_ids :: "string list"
  dimension :: "nat option"

text \<open>
  A method that mutates the instance and the storage root returns the exception raised, if
  any, with the instance and the file system as the call left them: an exception does not
  undo the assignments made before it.

  \<open>_save_index\<close> writes the index file, then the metadata, and raises nothing here: for an
  instance without an index \<open>faiss.write_index(None, ...)\<close> writes the record of a missing
  index.
\<close>

definition save_index :: "similarity_index \<Rightarrow> filesystem \<Rightarrow> error option \<times> filesystem" where
  "save_index st fs =
     (let index_file = os_path_join (index_path st) ''faiss.index'';
          metadata_file = os_path_join (index_path st) ''metadata.pkl''
      in (None,
          (fs(index_file \<mapsto>
                (case index st of None \<Rightarrow> NullIndexFile | Some f \<Rightarrow> IndexFile f)))
            (metadata_file \<mapsto>
               PickleFile \<lparr>md_item_ids = Some (item_ids st),
                           md_dimension = Some (dimension st)\<rparr>)))"

definition load_index :: "similarity_index \<Rightarrow> filesystem \<Rightarrow> similarity_index" where
  "load_index st fs =
     (let index_file = os_path_join (index_path st) ''faiss.index'';
          metadata_file = os_path_join (index_path st) ''metadata.pkl''
      in case (fs index_file, fs metadata_file) of
           (Some fi, Some fm) \<Rightarrow>
             (case read_index fi of
                Inl e \<Rightarrow> st\<lparr>index := None\<rparr>
              | Inr loaded \<Rightarrow>
                  let st1 = st\<lparr>index := loaded\<rparr> in
                  (case pickle_load fm of
                     Inl e \<Rightarrow> st1\<lparr>index := None\<rparr>
                   | Inr md \<Rightarrow>
                       (case md_item_ids md of
                          None \<Rightarrow> st1\<lparr>index := None\<rparr>
                        | Some ids \<Rightarrow>
                            let st2 = st1\<lparr>item_ids := ids\<rparr> in
                            (case md_dimension md of
                               None \<Rightarrow> st2\<lparr>index := None\<rparr>
                             | Some dm \<Rightarrow> st2\<lparr>dimension := dm\<rparr>))))
         | _ \<Rightarrow> st)"

text \<open>\<open>index_path or os.environ.get('FAISS_INDEX_PATH', '/data/index')\<close>: \<open>env\<close> is the
  environment variable, if set.\<close>

definition resolve_index_path :: "string option \<Rightarrow> string option \<Rightarrow> string" where
  "resolve_index_path p env =
     (let dflt = (case env of Some e \<Rightarrow> e | None \<Rightarrow> ''/data/index'')
      in case p of None \<Rightarrow> dflt | Some s \<Rightarrow> if s = [] then dflt else s)"

definition SimilarityIndex_init ::
  "string option \<Rightarrow> string option \<Rightarrow> filesystem \<Rightarrow> similarity_index" where
  "SimilarityIndex_init p env fs =
     load_index
       \<lparr>index_path = resolve_index_path p env, index = None, item_ids = [], dimension = None\<rparr>
       fs"

definition build ::
  "similarity_index \<Rightarrow> filesystem \<Rightarrow> ndarray \<Rightarrow> string list
     \<Rightarrow> error option \<times> similarity_index \<times> filesystem" where
  "build st fs vectors ids =
     (case py_len vectors of
        Inl e \<Rightarrow> (Some e, st, fs)
      | Inr len_vectors \<Rightarrow>
          if len_vectors \<noteq> length ids then (Some ValueError, st, fs)
          else
            (case shape vectors of
               n # d # _ \<Rightarrow>
                 let st1 = st\<lparr>dimension := Some d, item_ids := ids\<rparr>;
                     f0 = (IndexHNSWFlat d 32)\<lparr>efConstruction := 40\<rparr>;
                     st2 = st1\<lparr>index := Some f0\<rparr>
                 in (case faiss_add f0 vectors of
                       Inl e \<Rightarrow> (Some e, st2, fs)
                     | Inr f1 \<Rightarrow>
                         let st3 = st2\<lparr>index := Some f1\<rparr>;
                             (r, fs') = save_index st3 fs
                         in (r, st3, fs'))
             | _ \<Rightarrow> (Some IndexError, st, fs)))"

definition add_items ::
  "similarity_index \<Rightarrow> filesystem \<Rightarrow> ndarray \<Rightarrow> string list
     \<Rightarrow> error option \<times> similarity_index \<times> filesystem" where
  "add_items st fs vectors ids =
     (case index st of
        None \<Rightarrow> build st fs vectors ids
      | Some f \<Rightarrow>
          (case faiss_add f vectors of
             Inl e \<Rightarrow> (Some e, st, fs)
           | Inr f' \<Rightarrow>
               let st1 = st\<lparr>index := Some f'\<rparr>;
                   st2 = st1\<lparr>item_ids := item_ids st1 @ ids\<rparr>;
                   (r, fs') = save_index st2 fs
               in (r, st2, fs')))"

text \<open>\<open>xs[i]\<close> on a Python list: a negative index counts from the end.\<close>

definition py_getitem :: "'a list \<Rightarrow> int \<Rightarrow> error + 'a" where
  "py_getitem xs i =
     (if 0 \<le> i \<and> i < int (length xs) then Inr (xs ! nat i)
      else if i < 0 \<and> - int (length xs) \<le> i then Inr (xs ! nat (int (length xs) + i))
      else Inl IndexError)"

text \<open>The loop of \<open>search\<close> over the candidates of the first query row.\<close>

fun collect_results ::
  "string list \<Rightarrow> (real \<times> int) list \<Rightarrow> error + (string \<times> real \<times> real) list" where
  "collect_results ids [] = Inr []"
| "collect_results ids ((distance, idx) # rest) =
     (if idx < int (length ids) then
        (case py_getitem ids idx of
           Inl e \<Rightarrow> Inl e
         | Inr item \<Rightarrow>
             (case collect_results ids rest of
                Inl e \<Rightarrow> Inl e
              | Inr results \<Rightarrow> Inr ((item, distance, 1 / (1 + distance)) # results)))
      else collect_results ids rest)"

definition search ::
  "ann_search \<Rightarrow> similarity_index \<Rightarrow> ndarray \<Rightarrow> int
     \<Rightarrow> error + (string \<times> real \<times> real) list" where
  "search ann st query_vector k =
     (case index st of
        None \<Rightarrow> Inl RuntimeError
      | Some f \<Rightarrow>
          (case reshape_query query_vector of
             None \<Rightarrow> Inl ValueError
           | Some q \<Rightarrow>
               (case faiss_search ann f q k of
                  Inl e \<Rightarrow> Inl e
                | Inr [] \<Rightarrow> Inl IndexError
                | Inr (row # _) \<Rightarrow> collect_results (item_ids st) row)))"

text \<open>The size invariant of the data model: the id list is as long as the ANN structure
  is large.  An instance without an index has nothing to compare.\<close>

definition size_invariant :: "similarity_index \<Rightarrow> bool" where
  "size_invariant st =
     (case index st of None \<Rightarrow> True | Some f \<Rightarrow> ntotal f = length (item_ids st))"

section \<open>server.py: AnalysisService\<close>

text \<open>
  The requests, the responses and the gRPC context, as far as the handlers use them.  The
  extraction engine (\<open>AudioAnalyzer.analyze_file\<close>, which reads the audio file through
  Essentia) is a parameter: it returns the descriptors or raises.  The response keeps the
  descriptors and the vector as they are (their rendering by \<open>str\<close> and \<open>tobytes\<close>
  is not modelled), and the exception itself stands for its message.
\<close>

record analysis_request =
  req_file_path :: string
  req_depth :: string
  req_descriptors :: "string list"

record batch_analysis_request =
  file_paths :: "string list"
  depth :: string
  descriptors :: "string list"

datatype status_code = INTERNAL

record servicer_context =
  status :: "status_code option"
  details :: "error option"

record analysis_response =
  resp_file_path :: string
  resp_features :: features
  resp_feature_vector :: "fp list"
  resp_error :: "error option"

record analysis_progress =
  total :: nat
  completed :: nat
  errors :: nat
  current_file :: string
  progress_percent :: real

type_synonym analyzer = "string \<Rightarrow> string \<Rightarrow> string list \<Rightarrow> error + features"

text \<open>The \<open>try\<close> block of \<open>AnalyzeTrack\<close>.\<close>

definition analyze_track_try :: "analyzer \<Rightarrow> analysis_request \<Rightarrow> error + analysis_response" where
  "analyze_track_try az request =
     (case az (req_file_path request) (req_depth request) (req_descriptors request) of
        Inl e \<Rightarrow> Inl e
      | Inr fs \<Rightarrow>
          (case create_feature_vector fs of
             Inl e \<Rightarrow> Inl e
           | Inr feature_vector \<Rightarrow>
               Inr \<lparr>resp_file_path = req_file_path request, resp_features = fs,
                    resp_feature_vector = feature_vector, resp_error = None\<rparr>))"

text \<open>\<open>AnalyzeTrack\<close>: the \<open>try\<close> block, and the handler of \<open>except Exception\<close>.\<close>

definition AnalyzeTrack ::
  "analyzer \<Rightarrow> analysis_request \<Rightarrow> servicer_context
     \<Rightarrow> error + (analysis_response \<times> servicer_context)" where
  "AnalyzeTrack az request ctx =
     (case analyze_track_try az request of
        Inr response \<Rightarrow> Inr (response, ctx)
      | Inl e \<Rightarrow>
          Inr (\<lparr>resp_file_path = req_file_path request, resp_features = [],
                resp_feature_vector = [], resp_error = Some e\<rparr>,
               ctx\<lparr>status := Some INTERNAL, details := Some e\<rparr>))"

text \<open>
  The loop of \<open>AnalyzeBatch\<close> over the remaining paths, with the counters \<open>completed\<close>
  (\<open>cmp\<close>) and \<open>errors\<close> (\<open>errs\<close>); the result lists the progress records in the order
  they are yielded.
\<close>

fun batch_loop ::
  "analyzer \<Rightarrow> batch_analysis_request \<Rightarrow> nat \<Rightarrow> string list \<Rightarrow> nat \<Rightarrow> nat \<Rightarrow> servicer_context
     \<Rightarrow> analysis_progress list \<times> servicer_context" where
  "batch_loop az request tot [] cmp errs ctx = ([], ctx)"
| "batch_loop az request tot (file_path # rest) cmp errs ctx =
     (let single_request =
            \<lparr>req_file_path = file_path, req_depth = depth request,
             req_descriptors = descriptors request\<rparr>;
          (cmp', errs', ctx') =
            (case AnalyzeTrack az single_request ctx of
               Inr (response, c) \<Rightarrow> (cmp + 1, errs, c)
             | Inl e \<Rightarrow> (cmp, errs + 1, ctx));
          progress =
            \<lparr>total = tot, completed = cmp', errors = errs', current_file = file_path,
             progress_percent = (real cmp' / real tot) * 100\<rparr>;
          (more, ctx'') = batch_loop az request tot rest cmp' errs' ctx'
      in (progress # more, ctx''))"

definition AnalyzeBatch ::
  "analyzer \<Rightarrow> batch_analysis_request \<Rightarrow> servicer_context
     \<Rightarrow> analysis_progress list \<times> servicer_context" where
  "AnalyzeBatch az request ctx =
     batch_loop az request (length (file_paths request)) (file_paths request) 0 0 ctx"

section \<open>Properties of the rounding\<close>








lemma float32_0: "float32 0 = Finite 0"
  by (simp add: float32_def round_binary_def)









section \<open>Properties of the feature vector\<close>

lemma vector_values_length:
  "vector_values fs names = Inr v \<Longrightarrow> length v = length names"
  by (induction names arbitrary: v) (auto split: sum.splits)

lemma length_l2_normalize: "length (l2_normalize v) = length v"
  by (simp add: l2_normalize_def split: fp.splits)

lemma length_normalize_vector: "length (normalize_vector v) = length v"
  by (cases v) (simp_all add: normalize_vector_def scale_tempo_def length_l2_normalize)

text \<open>Whenever \<open>create_feature_vector\<close> returns, the vector has 16 components.\<close>

lemma create_feature_vector_length:
  assumes "create_feature_vector fs = Inr v"
  shows "length v = 16"
proof -
  from assms obtain w where w: "vector_values fs feature_order = Inr w"
    and v: "v = normalize_vector (map to_float32 w)"
    by (auto simp: create_feature_vector_def split: sum.splits)
  have "length w = 16"
    using vector_values_length [OF w] by (simp add: feature_order_def)
  then show ?thesis
    by (simp add: v length_normalize_vector)
qed

lemma l2_norm_zeros: "l2_norm (replicate n (Finite 0)) = Finite 0"
  by (simp add: l2_norm_def list_ex_iff float32_0 sum_list_replicate)

text \<open>The descriptor set without entries is mapped to the zero vector.\<close>

lemma vector_values_absent:
  "vector_values [] names = Inr (replicate (length names) (Finite 0))"
  by (induction names) (simp_all add: feature_value_def)

lemma create_feature_vector_empty: "create_feature_vector [] = Inr (replicate 16 (Finite 0))"
proof -
  have "length feature_order = 16" by (simp add: feature_order_def)
  then have "vector_values [] feature_order = Inr (replicate 16 (Finite 0))"
    using vector_values_absent [of feature_order] by (simp only:)
  moreover have "normalize_vector (replicate 16 (Finite 0)) = replicate 16 (Finite 0)"
    using l2_norm_zeros [of 16]
    by (simp add: normalize_vector_def scale_tempo_def l2_normalize_def numeral_eq_Suc)
  ultimately show ?thesis
    by (simp add: create_feature_vector_def float32_0)
qed

text \<open>A NaN descriptor is returned in the vector: clipping and the norm leave it.\<close>

lemma create_feature_vector_nan:
  "create_feature_vector [(''energy'', PyFloat NaN)]
     = Inr (Finite 0 # NaN # replicate 14 (Finite 0))"
  by (simp add: create_feature_vector_def feature_order_def feature_value_def
        normalize_vector_def scale_tempo_def l2_normalize_def l2_norm_def float32_0
        numeral_eq_Suc)

subsection \<open>The tempo component\<close>





subsection \<open>A string with two dots\<close>

text \<open>
  C3.  \<open>create_feature_vector\<close> is not total: on the descriptor set \<open>{'tempo': '1.2.3'}\<close>
  the test \<open>value.replace('.', '').isdigit()\<close> holds (\<open>'123'\<close> is all digits), \<open>float('1.2.3')\<close>
  is called, and its ValueError leaves the function.  The value is neither parsed nor
  replaced by 0.
\<close>

theorem create_feature_vector_raises:
  "create_feature_vector [(''tempo'', PyStr ''1.2.3'')] = Inl ValueError"
  by (simp add: create_feature_vector_def feature_order_def feature_value_def isdigit_def
        replace_dot_def is_digit_char_def digit_of_def py_float_def)

section \<open>Properties of the similarity index\<close>

subsection \<open>What a successful call establishes\<close>

lemma build_success:
  assumes "build st fs vectors ids = (None, st', fs')"
  shows "\<exists>d rows. vectors = Array2 d rows \<and> length rows = length ids \<and>
           index st' = Some ((IndexHNSWFlat d 32)\<lparr>xb := rows\<rparr>) \<and>
           item_ids st' = ids \<and> dimension st' = Some d \<and> index_path st' = index_path st"
  using assms
  by (cases vectors)
     (auto simp: build_def save_index_def faiss_add_def IndexHNSWFlat_def Let_def
           split: if_splits)

lemma build_size_invariant:
  "build st fs vectors ids = (None, st', fs') \<Longrightarrow> size_invariant st'"
  by (cases vectors)
     (auto simp: build_def save_index_def faiss_add_def IndexHNSWFlat_def Let_def ntotal_def
           size_invariant_def
           split: if_splits)

text \<open>\<open>add_items\<close> keeps the size invariant when it is given as many ids as vectors.\<close>

lemma add_items_size_invariant:
  assumes "size_invariant st" and "py_len vectors = Inr (length ids)"
    and "add_items st fs vectors ids = (None, st', fs')"
  shows "size_invariant st'"
proof (cases "index st")
  case None
  with assms show ?thesis by (simp add: add_items_def build_size_invariant)
next
  case (Some f)
  with assms show ?thesis
    by (cases vectors)
       (auto simp: add_items_def save_index_def faiss_add_def Let_def ntotal_def
             size_invariant_def
             split: if_splits)
qed

text \<open>On an instance that holds an index, a call of \<open>add_items\<close> that raises has changed
  nothing.\<close>

lemma add_items_raise_unchanged:
  assumes "index st = Some f" and "add_items st fs vectors ids = (Some e, st', fs')"
  shows "st' = st \<and> fs' = fs"
  using assms
  by (auto simp: add_items_def save_index_def Let_def split: sum.splits)

text \<open>On an array of three or more dimensions with as many entries as ids, \<open>build\<close>
  passes the count test, overwrites the instance, and then raises the ValueError of
  faiss's \<open>add\<close>: the prior state is lost and nothing is saved.\<close>

lemma build_three_dimensions:
  "build st fs (ArrayN (length ids) d e ds) ids
     = (Some ValueError,
        st\<lparr>dimension := Some d, item_ids := ids,
           index := Some ((IndexHNSWFlat d 32)\<lparr>efConstruction := 40\<rparr>)\<rparr>,
        fs)"
  by (simp add: build_def faiss_add_def)

subsection \<open>Rejected calls\<close>

text \<open>faiss's \<open>add\<close> raises on every array whose shape is not \<open>(n, d)\<close> for the index's
  \<open>d\<close>: the assertion on a two-dimensional array, ValueError on any other.\<close>

lemma faiss_add_rejects:
  assumes "\<forall>n. shape vectors \<noteq> [n, faiss_d f]"
  shows "faiss_add f vectors
           = Inl (if length (shape vectors) = 2 then AssertionError else ValueError)"
  using assms by (cases vectors) (simp_all add: faiss_add_def)

text \<open>
  C1, as stated, fails: \<open>add_items\<close> has no dimension check and no error of its own for
  a dimension mismatch.  On the index built from one vector of dimension 2, a vector of
  dimension 3 given as a one-dimensional array fails with ValueError, the class of the
  validation error of \<open>build\<close>, and the same vector given as a \<open>(1, 3)\<close> array fails with
  AssertionError: both errors come from faiss's \<open>add\<close>, and they differ.
\<close>

theorem add_items_dimension_error_counterexample:
  "add_items
     \<lparr>index_path = ''/data/index'',
      index = Some \<lparr>faiss_d = 2, hnsw_M = 32, efConstruction = 40, xb = [[0, 0]]\<rparr>,
      item_ids = [''a''], dimension = Some 2\<rparr>
     (map_of []) (Array1 [1, 1, 1]) [''b'']
   = (Some ValueError,
      \<lparr>index_path = ''/data/index'',
       index = Some \<lparr>faiss_d = 2, hnsw_M = 32, efConstruction = 40, xb = [[0, 0]]\<rparr>,
       item_ids = [''a''], dimension = Some 2\<rparr>,
      map_of []) \<and>
   add_items
     \<lparr>index_path = ''/data/index'',
      index = Some \<lparr>faiss_d = 2, hnsw_M = 32, efConstruction = 40, xb = [[0, 0]]\<rparr>,
      item_ids = [''a''], dimension = Some 2\<rparr>
     (map_of []) (Array2 3 [[1, 1, 1]]) [''b'']
   = (Some AssertionError,
      \<lparr>index_path = ''/data/index'',
       index = Some \<lparr>faiss_d = 2, hnsw_M = 32, efConstruction = 40, xb = [[0, 0]]\<rparr>,
       item_ids = [''a''], dimension = Some 2\<rparr>,
      map_of []) \<and>
   ValueError \<noteq> AssertionError"
  by (simp add: add_items_def faiss_add_def)

text \<open>
  C1, amended.  For every instance that holds an index of dimension \<open>D\<close> and every array
  whose shape is not \<open>(n, D)\<close>, \<open>add_items\<close> fails with the error that the ANN library's
  \<open>add\<close> raises on the array, and the instance (id list, stored vectors, dimension) and
  the stored files are the same before and after the call.  \<open>add_items\<close> itself checks
  nothing: it calls the library's \<open>add\<close> before it extends the id list and saves.
\<close>

theorem add_items_rejected_unchanged:
  assumes "index st = Some f" and "dimension st = Some D" and "faiss_d f = D"
    and "\<forall>n. shape vectors \<noteq> [n, D]"
  shows "\<exists>e. faiss_add f vectors = Inl e \<and> add_items st fs vectors ids = (Some e, st, fs)"
proof -
  from assms(3,4) have "\<forall>n. shape vectors \<noteq> [n, faiss_d f]" by simp
  then have "faiss_add f vectors
               = Inl (if length (shape vectors) = 2 then AssertionError else ValueError)"
    by (rule faiss_add_rejects)
  with assms(1) show ?thesis by (simp add: add_items_def)
qed

theorem add_items_rejected_unchanged_witness:
  "build \<lparr>index_path = ''/data/index'', index = None, item_ids = [], dimension = None\<rparr>
     (map_of []) (Array2 2 [[0, 0]]) [''a'']
   = (None,
      \<lparr>index_path = ''/data/index'',
       index = Some \<lparr>faiss_d = 2, hnsw_M = 32, efConstruction = 40, xb = [[0, 0]]\<rparr>,
       item_ids = [''a''], dimension = Some 2\<rparr>,
      (map_of [])(''/data/index/faiss.index'' \<mapsto>
          IndexFile \<lparr>faiss_d = 2, hnsw_M = 32, efConstruction = 40, xb = [[0, 0]]\<rparr>,
        ''/data/index/metadata.pkl'' \<mapsto>
          PickleFile \<lparr>md_item_ids = Some [''a''], md_dimension = Some (Some 2)\<rparr>)) \<and>
   add_items
     \<lparr>index_path = ''/data/index'',
      index = Some \<lparr>faiss_d = 2, hnsw_M = 32, efConstruction = 40, xb = [[0, 0]]\<rparr>,
      item_ids = [''a''], dimension = Some 2\<rparr>
     (map_of []) (Array2 3 [[1, 1, 1], [2, 2, 2]]) [''b'', ''c'']
   = (Some AssertionError,
      \<lparr>index_path = ''/data/index'',
       index = Some \<lparr>faiss_d = 2, hnsw_M = 32, efConstruction = 40, xb = [[0, 0]]\<rparr>,
       item_ids = [''a''], dimension = Some 2\<rparr>,
      map_of [])"
  using add_items_rejected_unchanged
    [of "\<lparr>index_path = ''/data/index'',
         index = Some \<lparr>faiss_d = 2, hnsw_M = 32, efConstruction = 40, xb = [[0, 0]]\<rparr>,
         item_ids = [''a''], dimension = Some 2\<rparr>"
        "\<lparr>faiss_d = 2, hnsw_M = 32, efConstruction = 40, xb = [[0, 0]]\<rparr>" 2
        "Array2 3 [[1, 1, 1], [2, 2, 2]]" "map_of []" "[''b'', ''c'']"]
  by (simp add: build_def save_index_def faiss_add_def IndexHNSWFlat_def os_path_join_def)

text \<open>
  C5, as stated, fails: \<open>build\<close> checks the counts and nothing else.  Two vectors of
  lengths 2 and 1 reach it as a one-dimensional object array; with two ids the count test
  passes and the call fails with the IndexError of an unguarded \<open>vectors.shape[1]\<close>, not
  with the ValueError of the count test.
\<close>

theorem build_ragged_counterexample:
  "build
     \<lparr>index_path = ''/data/index'',
      index = Some \<lparr>faiss_d = 2, hnsw_M = 32, efConstruction = 40, xb = [[0, 0]]\<rparr>,
      item_ids = [''a''], dimension = Some 2\<rparr>
     (map_of []) (Array1Obj [[1, 2], [3]]) [''b'', ''c'']
   = (Some IndexError,
      \<lparr>index_path = ''/data/index'',
       index = Some \<lparr>faiss_d = 2, hnsw_M = 32, efConstruction = 40, xb = [[0, 0]]\<rparr>,
       item_ids = [''a''], dimension = Some 2\<rparr>,
      map_of []) \<and>
   IndexError \<noteq> ValueError"
  by (simp add: build_def)

text \<open>
  C5, amended.  For every prior state and every array, \<open>build\<close> with a vector count
  different from the id count fails with ValueError, and the instance (dimension, id list,
  stored vectors) and the stored files are exactly as before the call.  The count test is
  the only validation of \<open>build\<close>.
\<close>

theorem build_count_mismatch_unchanged:
  assumes "py_len vectors = Inr n" and "n \<noteq> length ids"
  shows "build st fs vectors ids = (Some ValueError, st, fs)"
  using assms by (simp add: build_def)

theorem build_count_mismatch_unchanged_witness:
  "build
     \<lparr>index_path = ''/r'',
      index = Some \<lparr>faiss_d = 2, hnsw_M = 32, efConstruction = 40, xb = [[5, 5]]\<rparr>,
      item_ids = [''z''], dimension = Some 2\<rparr>
     (map_of []) (Array2 2 [[0, 0]]) [''a'', ''b'']
   = (Some ValueError,
      \<lparr>index_path = ''/r'',
       index = Some \<lparr>faiss_d = 2, hnsw_M = 32, efConstruction = 40, xb = [[5, 5]]\<rparr>,
       item_ids = [''z''], dimension = Some 2\<rparr>,
      map_of []) \<and>
   build
     \<lparr>index_path = ''/r'',
      index = Some \<lparr>faiss_d = 2, hnsw_M = 32, efConstruction = 40, xb = [[5, 5]]\<rparr>,
      item_ids = [''z''], dimension = Some 2\<rparr>
     (map_of []) (ArrayN 3 2 2 []) [''a'', ''b'']
   = (Some ValueError,
      \<lparr>index_path = ''/r'',
       index = Some \<lparr>faiss_d = 2, hnsw_M = 32, efConstruction = 40, xb = [[5, 5]]\<rparr>,
       item_ids = [''z''], dimension = Some 2\<rparr>,
      map_of [])"
  using build_count_mismatch_unchanged
      [of "Array2 2 [[0, 0]]" 1 "[''a'', ''b'']"
          "\<lparr>index_path = ''/r'',
            index = Some \<lparr>faiss_d = 2, hnsw_M = 32, efConstruction = 40, xb = [[5, 5]]\<rparr>,
            item_ids = [''z''], dimension = Some 2\<rparr>" "map_of []"]
    build_count_mismatch_unchanged
      [of "ArrayN 3 2 2 []" 3 "[''a'', ''b'']"
          "\<lparr>index_path = ''/r'',
            index = Some \<lparr>faiss_d = 2, hnsw_M = 32, efConstruction = 40, xb = [[5, 5]]\<rparr>,
            item_ids = [''z''], dimension = Some 2\<rparr>" "map_of []"]
  by simp

subsection \<open>The size invariant\<close>

text \<open>
  C4.  The size invariant does not hold after every accepted call: \<open>add_items\<close>, unlike
  \<open>build\<close>, does not compare the two counts.  On the index built from one vector, a call
  with two vectors and one id returns normally and leaves three stored vectors beside two
  ids.
\<close>

theorem add_items_breaks_size_invariant:
  "build \<lparr>index_path = ''/data/index'', index = None, item_ids = [], dimension = None\<rparr>
     (map_of []) (Array2 2 [[0, 0]]) [''a'']
   = (None,
      \<lparr>index_path = ''/data/index'',
       index = Some \<lparr>faiss_d = 2, hnsw_M = 32, efConstruction = 40, xb = [[0, 0]]\<rparr>,
       item_ids = [''a''], dimension = Some 2\<rparr>,
      (map_of [])(''/data/index/faiss.index'' \<mapsto>
          IndexFile \<lparr>faiss_d = 2, hnsw_M = 32, efConstruction = 40, xb = [[0, 0]]\<rparr>,
        ''/data/index/metadata.pkl'' \<mapsto>
          PickleFile \<lparr>md_item_ids = Some [''a''], md_dimension = Some (Some 2)\<rparr>)) \<and>
   fst (add_items
          \<lparr>index_path = ''/data/index'',
           index = Some \<lparr>faiss_d = 2, hnsw_M = 32, efConstruction = 40, xb = [[0, 0]]\<rparr>,
           item_ids = [''a''], dimension = Some 2\<rparr>
          (map_of []) (Array2 2 [[1, 1], [2, 2]]) [''b''])
   = None \<and>
   fst (snd (add_items
          \<lparr>index_path = ''/data/index'',
           index = Some \<lparr>faiss_d = 2, hnsw_M = 32, efConstruction = 40, xb = [[0, 0]]\<rparr>,
           item_ids = [''a''], dimension = Some 2\<rparr>
          (map_of []) (Array2 2 [[1, 1], [2, 2]]) [''b'']))
   = \<lparr>index_path = ''/data/index'',
      index =
        Some \<lparr>faiss_d = 2, hnsw_M = 32, efConstruction = 40, xb = [[0, 0], [1, 1], [2, 2]]\<rparr>,
      item_ids = [''a'', ''b''], dimension = Some 2\<rparr> \<and>
   \<not> size_invariant
       \<lparr>index_path = ''/data/index'',
        index =
          Some \<lparr>faiss_d = 2, hnsw_M = 32, efConstruction = 40, xb = [[0, 0], [1, 1], [2, 2]]\<rparr>,
        item_ids = [''a'', ''b''], dimension = Some 2\<rparr>"
  by (simp add: build_def add_items_def save_index_def faiss_add_def IndexHNSWFlat_def
        os_path_join_def ntotal_def size_invariant_def)

subsection \<open>Search results\<close>

text \<open>\<open>search\<close> on an instance without an index raises RuntimeError.\<close>

lemma search_not_built: "index st = None \<Longrightarrow> search ann st q k = Inl RuntimeError"
  by (simp add: search_def)

lemma collect_results_beyond:
  "int (length ids) \<le> idx \<Longrightarrow>
     collect_results ids ((dst, idx) # rest) = collect_results ids rest"
  by simp

lemma collect_results_sentinel:
  "ids \<noteq> [] \<Longrightarrow>
     collect_results ids [(dst, - 1)] = Inr [(last ids, dst, 1 / (1 + dst))]"
  by (cases ids rule: rev_cases) (simp_all add: py_getitem_def)

lemma collect_results_sentinel_empty: "collect_results [] [(dst, - 1)] = Inl IndexError"
  by (simp add: py_getitem_def)

text \<open>
  C2.  A candidate with the sentinel id \<open>-1\<close> is not dropped: \<open>-1 < len(self.item_ids)\<close>
  holds, and \<open>self.item_ids[-1]\<close> is the last id.  On the index of the two vectors
  \<open>(0, 0)\<close> and \<open>(1, 1)\<close> with ids \<open>a\<close> and \<open>b\<close>, a search for \<open>(0, 0)\<close> with \<open>k = 3\<close>
  finds the two vectors and faiss fills the third place with \<open>-1\<close>; the result has a
  third tuple, with the id \<open>b\<close>.
\<close>

theorem search_sentinel_mapped_to_last_id:
  "search (\<lambda>f q k. [(0, 0), (2, 1)])
     \<lparr>index_path = ''/data/index'',
      index = Some \<lparr>faiss_d = 2, hnsw_M = 32, efConstruction = 40, xb = [[0, 0], [1, 1]]\<rparr>,
      item_ids = [''a'', ''b''], dimension = Some 2\<rparr>
     (Array1 [0, 0]) 3
   = Inr [(''a'', 0, 1), (''b'', 2, 1 / 3), (''b'', FLT_MAX, 1 / (1 + FLT_MAX))]"
  by (simp add: search_def faiss_search_def pad_results_def py_getitem_def numeral_eq_Suc)

subsection \<open>Saving and loading\<close>

lemma index_file_neq_metadata_file:
  "os_path_join a ''faiss.index'' \<noteq> os_path_join a ''metadata.pkl''"
  by (simp add: os_path_join_def)

lemma load_after_save:
  assumes "index st = Some f"
  shows "load_index \<lparr>index_path = index_path st, index = None, item_ids = [], dimension = None\<rparr>
           (snd (save_index st fs)) = st"
proof -
  have neq: "os_path_join (index_path st) ''faiss.index''
               \<noteq> os_path_join (index_path st) ''metadata.pkl''"
    by (rule index_file_neq_metadata_file)
  show ?thesis
    using assms neq
    by (simp add: load_index_def save_index_def read_index_def pickle_load_def Let_def)
qed

text \<open>Every successful \<open>build\<close> has saved the index: a fresh instance over the same
  storage root equals the one that was built.\<close>

lemma build_then_reload:
  assumes "build st fs vectors ids = (None, st', fs')"
    and "resolve_index_path p env = index_path st"
  shows "SimilarityIndex_init p env fs' = st'"
proof -
  from build_success [OF assms(1)] obtain f where f: "index st' = Some f"
    and path: "index_path st' = index_path st"
    by blast
  have "fs' = snd (save_index st' fs)"
    using assms(1)
    by (cases vectors)
       (auto simp: build_def faiss_add_def Let_def split: if_splits prod.splits)
  with f path assms(2) show ?thesis
    by (simp add: SimilarityIndex_init_def load_after_save [OF f, of fs, unfolded path])
qed

text \<open>
  C7.  For every instance that holds an index: saving succeeds, and a fresh instance
  constructed over the same storage root equals the original, so its id list, its
  dimension and its index are the original's, and \<open>search\<close> returns the same results for
  every query, every \<open>k\<close> and every behaviour of the graph search.  (The files give back
  what was written: the equality is exact in this model.)
\<close>

theorem save_reload_roundtrip:
  assumes "index st = Some f" and "resolve_index_path p env = index_path st"
  shows "fst (save_index st fs) = None \<and>
         SimilarityIndex_init p env (snd (save_index st fs)) = st \<and>
         (\<forall>ann q k. search ann (SimilarityIndex_init p env (snd (save_index st fs))) q k
                     = search ann st q k)"
proof -
  have "SimilarityIndex_init p env (snd (save_index st fs)) = st"
    using assms by (simp add: SimilarityIndex_init_def load_after_save)
  moreover have "fst (save_index st fs) = None"
    using assms by (simp add: save_index_def Let_def)
  ultimately show ?thesis by simp
qed

theorem save_reload_roundtrip_witness:
  "SimilarityIndex_init (Some ''/r'') None
     (snd (save_index
             \<lparr>index_path = ''/r'',
              index = Some \<lparr>faiss_d = 2, hnsw_M = 32, efConstruction = 40, xb = [[0, 0], [1, 1]]\<rparr>,
              item_ids = [''a'', ''b''], dimension = Some 2\<rparr>
             (map_of [])))
   = \<lparr>index_path = ''/r'',
      index = Some \<lparr>faiss_d = 2, hnsw_M = 32, efConstruction = 40, xb = [[0, 0], [1, 1]]\<rparr>,
      item_ids = [''a'', ''b''], dimension = Some 2\<rparr>"
  using save_reload_roundtrip
    [of "\<lparr>index_path = ''/r'',
          index = Some \<lparr>faiss_d = 2, hnsw_M = 32, efConstruction = 40, xb = [[0, 0], [1, 1]]\<rparr>,
          item_ids = [''a'', ''b''], dimension = Some 2\<rparr>"
        "\<lparr>faiss_d = 2, hnsw_M = 32, efConstruction = 40, xb = [[0, 0], [1, 1]]\<rparr>"
        "Some ''/r''" None "map_of []"]
  by (simp add: resolve_index_path_def)

text \<open>Where an artifact is missing the instance stays as constructed; where the index
  file, the pickle or its \<open>'item_ids'\<close> entry cannot be read, only the index is reset.\<close>

lemma load_index_missing:
  "fs (os_path_join (index_path st) ''faiss.index'') = None \<or>
   fs (os_path_join (index_path st) ''metadata.pkl'') = None \<Longrightarrow> load_index st fs = st"
  by (auto simp: load_index_def Let_def split: option.splits)

lemma load_index_unreadable:
  assumes "fs (os_path_join (index_path st) ''faiss.index'') = Some fi"
    and "fs (os_path_join (index_path st) ''metadata.pkl'') = Some fm"
    and "read_index fi = Inl e \<or> pickle_load fm = Inl e \<or>
         pickle_load fm = Inr md \<and> md_item_ids md = None"
  shows "load_index st fs = st\<lparr>index := None\<rparr>"
  using assms by (auto simp: load_index_def Let_def split: sum.splits option.splits)

text \<open>
  C8.  Loading does not always fall back to the uninitialized instance: with a readable
  index file and a pickled dictionary that has \<open>'item_ids'\<close> and no \<open>'dimension'\<close>,
  \<open>self.item_ids\<close> is assigned before the KeyError, and the handler resets \<open>self.index\<close>
  alone.  The instance has no index and a non-empty id list.
\<close>

theorem load_keeps_ids_of_unreadable_metadata:
  "SimilarityIndex_init (Some ''/r'') None
     (map_of
        [(''/r/faiss.index'',
          IndexFile \<lparr>faiss_d = 2, hnsw_M = 32, efConstruction = 40, xb = [[0, 0]]\<rparr>),
         (''/r/metadata.pkl'',
          PickleFile \<lparr>md_item_ids = Some [''a''], md_dimension = None\<rparr>)])
   = \<lparr>index_path = ''/r'', index = None, item_ids = [''a''], dimension = None\<rparr>"
  by (simp add: SimilarityIndex_init_def load_index_def resolve_index_path_def os_path_join_def
        read_index_def pickle_load_def)

section \<open>Properties of the batch handler\<close>

lemma AnalyzeTrack_returns:
  "\<exists>response c. AnalyzeTrack az request ctx = Inr (response, c)"
  by (auto simp: AnalyzeTrack_def split: sum.splits)

lemma batch_loop_progress:
  "fst (batch_loop az request tot paths cmp errs ctx) =
     map (\<lambda>i. \<lparr>total = tot, completed = cmp + i + 1, errors = errs, current_file = paths ! i,
               progress_percent = (real (cmp + i + 1) / real tot) * 100\<rparr>)
       [0..<length paths]"
proof (induction paths arbitrary: cmp ctx)
  case Nil
  then show ?case by simp
next
  case (Cons file_path rest)
  obtain response c where r:
    "AnalyzeTrack az \<lparr>req_file_path = file_path, req_depth = depth request,
        req_descriptors = descriptors request\<rparr> ctx = Inr (response, c)"
    using AnalyzeTrack_returns by blast
  show ?case
    using Cons.IH [of "cmp + 1" c]
    by (simp add: r Let_def split_beta map_upt_Suc del: upt_Suc)
qed

text \<open>
  C10.  For every extraction engine, whether it returns or raises, and every batch request
  with \<open>n\<close> paths, \<open>AnalyzeBatch\<close> yields \<open>n\<close> progress records, one per path in order;
  record number \<open>i + 1\<close> has \<open>total = n\<close>, \<open>completed = i + 1\<close>, \<open>errors = 0\<close>, the
  path as current file and \<open>progress_percent = (completed / total) * 100\<close>.
\<close>

theorem AnalyzeBatch_progress:
  "fst (AnalyzeBatch az request ctx) =
     map (\<lambda>i. \<lparr>total = length (file_paths request), completed = i + 1, errors = 0,
               current_file = file_paths request ! i,
               progress_percent = (real (i + 1) / real (length (file_paths request))) * 100\<rparr>)
       [0..<length (file_paths request)]"
  using batch_loop_progress
    [of az request "length (file_paths request)" "file_paths request" 0 0 ctx]
  by (simp add: AnalyzeBatch_def)

theorem AnalyzeBatch_progress_witness:
  "fst (AnalyzeBatch (\<lambda>file_path depth descriptors. Inl RuntimeError)
         \<lparr>file_paths = [''a.mp3'', ''b.mp3''], depth = ''standard'', descriptors = []\<rparr>
         \<lparr>status = None, details = None\<rparr>)
   = [\<lparr>total = 2, completed = 1, errors = 0, current_file = ''a.mp3'', progress_percent = 50\<rparr>,
      \<lparr>total = 2, completed = 2, errors = 0, current_file = ''b.mp3'', progress_percent = 100\<rparr>]"
  using AnalyzeBatch_progress
    [of "\<lambda>file_path depth descriptors. Inl RuntimeError"
        "\<lparr>file_paths = [''a.mp3'', ''b.mp3''], depth = ''standard'', descriptors = []\<rparr>"
        "\<lparr>status = None, details = None\<rparr>"]
  by (simp add: numeral_2_eq_2)

end
